theory Spec2Isabelle
  imports Main "HOL-Library.Sublist"
begin

section \<open>Python values used by the document filler\<close>

text \<open>
  The source is \<^verbatim>\<open>main_original.py\<close>, class \<^verbatim>\<open>EnhancedAIDocGenerator\<close>.
  A Python \<^verbatim>\<open>str\<close> is modelled as a \<^typ>\<open>string\<close> holding its UTF-8 bytes.
  Equality, \<^verbatim>\<open>in\<close>, \<^verbatim>\<open>split\<close> and \<^verbatim>\<open>join\<close> on valid UTF-8 agree with the
  same operations on code points. \<^verbatim>\<open>len\<close>, slicing, \<^verbatim>\<open>strip\<close> and \<^verbatim>\<open>int\<close>
  work on code points, which \<open>code_points\<close> cuts out of the bytes.
\<close>

datatype py_error = ValueError | IndexError | KeyError

subsection \<open>\<^verbatim>\<open>a in b\<close>, \<^verbatim>\<open>str.strip\<close>, \<^verbatim>\<open>str.split\<close>, \<^verbatim>\<open>str.join\<close>\<close>

definition str_in :: "string \<Rightarrow> string \<Rightarrow> bool" where
  "str_in a b = sublist a b"

text \<open>
  The code points of a string: a byte that is not a continuation byte, with the
  continuation bytes that follow it.
\<close>

definition is_continuation :: "char \<Rightarrow> bool" where
  "is_continuation c = (128 \<le> (of_char c :: nat) \<and> (of_char c :: nat) < 192)"

function code_points :: "string \<Rightarrow> string list" where
  "code_points [] = []"
| "code_points (c # cs) =
     (c # takeWhile is_continuation cs) # code_points (dropWhile is_continuation cs)"
  by pat_completeness auto
termination
  by (relation "measure length") (auto simp: less_Suc_eq_le length_dropWhile_le)

definition py_len :: "string \<Rightarrow> nat" where
  "py_len s = length (code_points s)"

definition py_take :: "nat \<Rightarrow> string \<Rightarrow> string" where
  "py_take n s = concat (take n (code_points s))"

text \<open>The code points for which \<^verbatim>\<open>str.isspace\<close> holds, in UTF-8.\<close>

definition white_space :: "string list" where
  "white_space =
     [[CHR 0x09],
      [CHR 0x0A],
      [CHR 0x0B],
      [CHR 0x0C],
      [CHR 0x0D],
      [CHR 0x1C],
      [CHR 0x1D],
      [CHR 0x1E],
      [CHR 0x1F],
      [CHR 0x20],
      [CHR 0xC2, CHR 0x85],
      [CHR 0xC2, CHR 0xA0],
      [CHR 0xE1, CHR 0x9A, CHR 0x80],
      [CHR 0xE2, CHR 0x80, CHR 0x80],
      [CHR 0xE2, CHR 0x80, CHR 0x81],
      [CHR 0xE2, CHR 0x80, CHR 0x82],
      [CHR 0xE2, CHR 0x80, CHR 0x83],
      [CHR 0xE2, CHR 0x80, CHR 0x84],
      [CHR 0xE2, CHR 0x80, CHR 0x85],
      [CHR 0xE2, CHR 0x80, CHR 0x86],
      [CHR 0xE2, CHR 0x80, CHR 0x87],
      [CHR 0xE2, CHR 0x80, CHR 0x88],
      [CHR 0xE2, CHR 0x80, CHR 0x89],
      [CHR 0xE2, CHR 0x80, CHR 0x8A],
      [CHR 0xE2, CHR 0x80, CHR 0xA8],
      [CHR 0xE2, CHR 0x80, CHR 0xA9],
      [CHR 0xE2, CHR 0x80, CHR 0xAF],
      [CHR 0xE2, CHR 0x81, CHR 0x9F],
      [CHR 0xE3, CHR 0x80, CHR 0x80]]"

definition is_space :: "string \<Rightarrow> bool" where
  "is_space cp = (cp \<in> set white_space)"

definition strip :: "string \<Rightarrow> string" where
  "strip s = concat (rev (dropWhile is_space (rev (dropWhile is_space (code_points s)))))"

text \<open>
  \<^verbatim>\<open>s.split(sep)\<close> for a non-empty separator: the pieces between the
  non-overlapping occurrences of \<^verbatim>\<open>sep\<close>, found from the left. The second
  argument of \<open>split_at\<close> is the piece read so far.
\<close>

function split_at :: "string \<Rightarrow> string \<Rightarrow> string \<Rightarrow> string list" where
  "split_at sep cur [] = [cur]"
| "split_at sep cur (c # cs) =
     (if sep \<noteq> [] \<and> prefix sep (c # cs)
      then cur # split_at sep [] (drop (length sep) (c # cs))
      else split_at sep (cur @ [c]) cs)"
  by pat_completeness auto
termination
  by (relation "measure (\<lambda>(sep, cur, s). length s)") auto

definition py_split :: "string \<Rightarrow> string \<Rightarrow> string list" where
  "py_split sep s = split_at sep [] s"

fun py_join :: "string \<Rightarrow> string list \<Rightarrow> string" where
  "py_join sep [] = []"
| "py_join sep [x] = x"
| "py_join sep (x # y # ys) = x @ sep @ py_join sep (y # ys)"

subsection \<open>\<^verbatim>\<open>int(s)\<close>\<close>

text \<open>
  \<^verbatim>\<open>int(s)\<close> on a string, base ten, as CPython 3.11 computes it. Every code
  point is first brought to ASCII: a code point below 127 stays, any other white
  space becomes a blank, a decimal digit of any script becomes the ASCII digit of
  its value, and anything else becomes a question mark. Of the result, the C
  white space (tab, line feed, vertical tab, form feed, carriage return, blank)
  around the literal is dropped, one sign may lead, and the rest is a non-empty
  run of digits in which single underscores may separate digits, with at most
  4300 digits (the default limit). Anything else raises \<^verbatim>\<open>ValueError\<close>.
  \<open>decimal_zeros\<close> lists the code points of decimal value 0 in Unicode 14.0;
  each begins a run of the ten digits of one script.
\<close>

definition cp_value :: "string \<Rightarrow> nat" where
  "cp_value ch =
     (case map of_char ch of
        [a] \<Rightarrow> a
      | [a, b] \<Rightarrow> (a - 192) * 64 + (b - 128)
      | [a, b, c] \<Rightarrow> (a - 224) * 4096 + (b - 128) * 64 + (c - 128)
      | [a, b, c, d] \<Rightarrow> (a - 240) * 262144 + (b - 128) * 4096 + (c - 128) * 64 + (d - 128)
      | _ \<Rightarrow> 0)"

definition decimal_zeros :: "nat list" where
  "decimal_zeros =
     [0x30, 0x660, 0x6F0, 0x7C0, 0x966, 0x9E6, 0xA66, 0xAE6,
      0xB66, 0xBE6, 0xC66, 0xCE6, 0xD66, 0xDE6, 0xE50, 0xED0,
      0xF20, 0x1040, 0x1090, 0x17E0, 0x1810, 0x1946, 0x19D0, 0x1A80,
      0x1A90, 0x1B50, 0x1BB0, 0x1C40, 0x1C50, 0xA620, 0xA8D0, 0xA900,
      0xA9D0, 0xA9F0, 0xAA50, 0xABF0, 0xFF10, 0x104A0, 0x10D30, 0x11066,
      0x110F0, 0x11136, 0x111D0, 0x112F0, 0x11450, 0x114D0, 0x11650, 0x116C0,
      0x11730, 0x118E0, 0x11950, 0x11C50, 0x11D50, 0x11DA0, 0x16A60, 0x16AC0,
      0x16B50, 0x1D7CE, 0x1D7D8, 0x1D7E2, 0x1D7EC, 0x1D7F6, 0x1E140, 0x1E2F0,
      0x1E950, 0x1FBF0]"

definition decimal_of :: "nat \<Rightarrow> nat option" where
  "decimal_of cp =
     (case find (\<lambda>z. z \<le> cp \<and> cp < z + 10) decimal_zeros of
        None \<Rightarrow> None
      | Some z \<Rightarrow> Some (cp - z))"

definition int_char :: "string \<Rightarrow> char" where
  "int_char ch =
     (if length ch = 1 \<and> (of_char (hd ch) :: nat) < 127 then hd ch
      else if is_space ch then CHR '' ''
      else case decimal_of (cp_value ch) of
             Some d \<Rightarrow> ''0123456789'' ! d
           | None \<Rightarrow> CHR ''?'')"

definition c_isspace :: "char \<Rightarrow> bool" where
  "c_isspace c = (c \<in> set [CHR 0x09, CHR 0x0A, CHR 0x0B, CHR 0x0C, CHR 0x0D, CHR 0x20])"

definition is_digit :: "char \<Rightarrow> bool" where
  "is_digit c = (48 \<le> (of_char c :: nat) \<and> (of_char c :: nat) \<le> 57)"

definition digit_val :: "char \<Rightarrow> int" where
  "digit_val c = int (of_char c) - 48"

fun int_body :: "string \<Rightarrow> bool" where
  "int_body [] = False"
| "int_body [c] = is_digit c"
| "int_body (c # d # r) =
     (is_digit c \<and> (if d = CHR ''_'' then int_body r else int_body (d # r)))"

definition digits_value :: "string \<Rightarrow> int" where
  "digits_value ds = foldl (\<lambda>acc c. 10 * acc + digit_val c) 0 (filter is_digit ds)"

definition py_int :: "string \<Rightarrow> py_error + int" where
  "py_int s =
     (let t = map int_char (code_points s);
          u = rev (dropWhile c_isspace (rev (dropWhile c_isspace t)));
          neg = (u \<noteq> [] \<and> hd u = CHR ''-'');
          body = (if u \<noteq> [] \<and> (hd u = CHR ''-'' \<or> hd u = CHR ''+'') then tl u else u)
      in if int_body body \<and> length (filter is_digit body) \<le> 4300
         then Inr (if neg then - digits_value body else digits_value body)
         else Inl ValueError)"

section \<open>Decoding a position key\<close>

text \<open>
  The dictionary returned by \<^verbatim>\<open>_parse_position_key\<close> has the keys
  \<^verbatim>\<open>row\<close>, \<^verbatim>\<open>col\<close>, \<^verbatim>\<open>field_name\<close>, \<^verbatim>\<open>fill_type\<close> and, for the
  \<^verbatim>\<open>left\<close> form only, \<^verbatim>\<open>context\<close>.
\<close>

record position_info =
  row :: int
  col :: int
  context' :: "string option"
  field_name :: string
  fill_type :: string

text \<open>
  The body of the \<^verbatim>\<open>try\<close> block. \<^verbatim>\<open>parts[1]\<close>, \<^verbatim>\<open>parts[2]\<close> and
  \<^verbatim>\<open>parts[3]\<close> are read after the length test, so they are in range.
\<close>

definition parse_position_key_try :: "string \<Rightarrow> py_error + position_info option" where
  "parse_position_key_try position_key =
     (let parts = py_split ''_'' position_key in
      if length parts < 4 then Inr None
      else
        case py_int (parts ! 1) of
          Inl e \<Rightarrow> Inl e
        | Inr n \<Rightarrow>
            if parts ! 2 = ''col'' then
              (case py_int (parts ! 3) of
                 Inl e \<Rightarrow> Inl e
               | Inr m \<Rightarrow>
                   Inr (Some \<lparr>row = n - 1, col = m - 1, context' = None,
                              field_name = py_join ''_'' (drop 4 parts),
                              fill_type = ''next_cell''\<rparr>))
            else if parts ! 2 = ''left'' then
              Inr (Some \<lparr>row = n - 1, col = - 1, context' = Some (parts ! 3),
                         field_name = py_join ''_'' (drop 4 parts),
                         fill_type = ''same_cell_with_context''\<rparr>)
            else Inr None)"

text \<open>
  \<^verbatim>\<open>except (ValueError, IndexError): return None\<close>; any other exception
  would leave the function.
\<close>

definition parse_position_key :: "string \<Rightarrow> py_error + position_info option" where
  "parse_position_key position_key =
     (case parse_position_key_try position_key of
        Inl e \<Rightarrow> (if e = ValueError \<or> e = IndexError then Inr None else Inl e)
      | Inr r \<Rightarrow> Inr r)"

section \<open>The table\<close>

text \<open>
  The document library hands out cell objects. \<^verbatim>\<open>row.cells\<close> holds one cell
  object for every grid column, and a merged cell is the same object at every
  position it spans, in its row and in the rows below. A table is therefore
  modelled by the contents of its cell objects and, for every row, the indices
  of the cell objects that \<^verbatim>\<open>row.cells\<close> holds. The contents of a cell are the
  texts of its paragraphs, and reading \<^verbatim>\<open>cell.text\<close> joins them with a newline.
  A document is the list \<^verbatim>\<open>doc.tables\<close>.
\<close>

type_synonym cell = "string list"
type_synonym cell_id = nat
type_synonym table_row = "cell list"

record table =
  grid :: "cell_id list list"
  contents :: "cell list"

type_synonym document = "table list"

definition cell_text :: "cell \<Rightarrow> string" where
  "cell_text c = py_join [CHR 0x0A] c"

text \<open>The cells of \<^verbatim>\<open>row.cells\<close> as they read now.\<close>

definition row_view :: "cell list \<Rightarrow> cell_id list \<Rightarrow> table_row" where
  "row_view st ids = map (\<lambda>i. st ! i) ids"

text \<open>
  Writing a text into a run (\<^verbatim>\<open>run.text = text\<close>): the characters are
  collected; at a tab the collected piece is written and a tab element added; at
  a carriage return or a line feed the piece is written and a break added, which
  reads as a line feed; at the end the last piece is written. Writing a piece
  raises \<^verbatim>\<open>ValueError\<close> when it holds a control character or one of
  U+FFFE and U+FFFF, and what was written before stays. The result is the flag
  "nothing was raised" and the text the run then reads as.
\<close>

definition xml_char :: "string \<Rightarrow> bool" where
  "xml_char ch =
     ((case ch of
         [] \<Rightarrow> True
       | c # _ \<Rightarrow> 32 \<le> (of_char c :: nat) \<or> c \<in> set [CHR 0x09, CHR 0x0A, CHR 0x0D]) \<and>
      ch \<noteq> [CHR 0xEF, CHR 0xBF, CHR 0xBE] \<and> ch \<noteq> [CHR 0xEF, CHR 0xBF, CHR 0xBF])"

fun append_to_run :: "string list \<Rightarrow> string list \<Rightarrow> string \<Rightarrow> bool \<times> string" where
  "append_to_run [] bfr written =
     (if list_all xml_char bfr then (True, written @ concat bfr) else (False, written))"
| "append_to_run (ch # rest) bfr written =
     (if ch = [CHR 0x09] then
        (if list_all xml_char bfr
         then append_to_run rest [] (written @ concat bfr @ [CHR 0x09])
         else (False, written))
      else if ch = [CHR 0x0D] \<or> ch = [CHR 0x0A] then
        (if list_all xml_char bfr
         then append_to_run rest [] (written @ concat bfr @ [CHR 0x0A])
         else (False, written))
      else append_to_run rest (bfr @ [ch]) written)"

definition run_text :: "string \<Rightarrow> bool \<times> string" where
  "run_text s = append_to_run (code_points s) [] []"

text \<open>
  \<^verbatim>\<open>cell.text = v\<close> empties the cell, adds one paragraph with one run and
  writes \<open>v\<close> into the run. \<^verbatim>\<open>cell.add_paragraph(v)\<close> adds a paragraph with one
  run and writes \<open>v\<close> into it. Both give the flag "nothing was raised" and the
  cell as it is afterwards.
\<close>

definition set_text :: "string \<Rightarrow> bool \<times> cell" where
  "set_text v = (fst (run_text v), [snd (run_text v)])"

definition add_paragraph :: "cell \<Rightarrow> string \<Rightarrow> bool \<times> cell" where
  "add_paragraph c v = (fst (run_text v), c @ [snd (run_text v)])"

section \<open>Matching a cell and filling it\<close>

text \<open>
  \<^verbatim>\<open>_is_position_match\<close>. The indices come from \<^verbatim>\<open>enumerate\<close> and are
  natural numbers; the row and column of the descriptor are integers.
  \<^verbatim>\<open>row.cells[cell_idx-1]\<close> raises \<^verbatim>\<open>IndexError\<close> out of range and
  \<^verbatim>\<open>position_info['context']\<close> raises \<^verbatim>\<open>KeyError\<close> when the key is absent.
\<close>

definition is_position_match ::
  "nat \<Rightarrow> nat \<Rightarrow> string \<Rightarrow> position_info \<Rightarrow> table_row \<Rightarrow> py_error + bool" where
  "is_position_match row_idx cell_idx cell_txt position_info row_cells =
     (if fill_type position_info = ''next_cell'' then
        Inr (int row_idx = row position_info \<and>
             int cell_idx = col position_info \<and>
             str_in (field_name position_info) cell_txt)
      else if fill_type position_info = ''same_cell_with_context'' then
        (if int row_idx = row position_info \<and> str_in (field_name position_info) cell_txt then
           (if cell_idx > 0 then
              (if cell_idx - 1 < length row_cells then
                 (case context' position_info of
                    None \<Rightarrow> Inl KeyError
                  | Some ctx \<Rightarrow> Inr (str_in ctx (cell_text (row_cells ! (cell_idx - 1)))))
               else Inl IndexError)
            else Inr False)
         else Inr False)
      else Inr False)"

text \<open>
  \<^verbatim>\<open>_fill_cell_by_position\<close>, on the contents of the cell objects and the
  cell objects of the row; its \<^verbatim>\<open>cell\<close> argument is \<^verbatim>\<open>row.cells[cell_idx]\<close>.
  It returns the flag and the contents after the write. An exception of the
  write is caught by \<^verbatim>\<open>except Exception\<close>, after which the function returns
  false.
\<close>

definition fill_cell_by_position ::
  "cell list \<Rightarrow> cell_id list \<Rightarrow> nat \<Rightarrow> string \<Rightarrow> position_info \<Rightarrow> bool \<times> cell list" where
  "fill_cell_by_position st row_ids cell_idx field_value position_info =
     (if fill_type position_info = ''next_cell'' then
        (if cell_idx + 1 < length row_ids
         then (fst (set_text field_value),
               st[row_ids ! (cell_idx + 1) := snd (set_text field_value)])
         else (False, st))
      else if fill_type position_info = ''same_cell_with_context'' then
        (fst (add_paragraph (st ! (row_ids ! cell_idx)) field_value),
         st[row_ids ! cell_idx := snd (add_paragraph (st ! (row_ids ! cell_idx)) field_value)])
      else (False, st))"

section \<open>The fill pass\<close>

text \<open>
  A dictionary that is iterated is an association list in insertion order with
  distinct keys; \<^verbatim>\<open>position_matches\<close> is only looked up and is a map.
\<close>

type_synonym str_dict = "(string \<times> string) list"

record scan_state =
  cell_contents :: "cell list"
  filled_fields :: "string list"
  skipped_fields :: "string list"

text \<open>An exception leaves the loops with the state reached so far.\<close>

type_synonym scan_result = "(py_error \<times> scan_state) + scan_state"

fun for_each :: "'a list \<Rightarrow> ('a \<Rightarrow> scan_state \<Rightarrow> scan_result) \<Rightarrow> scan_state \<Rightarrow> scan_result" where
  "for_each [] body s = Inr s"
| "for_each (x # xs) body s =
     (case body x s of Inl e \<Rightarrow> Inl e | Inr s' \<Rightarrow> for_each xs body s')"

fun build_position_matches ::
  "str_dict \<Rightarrow> (string \<rightharpoonup> position_info) \<Rightarrow> py_error + (string \<rightharpoonup> position_info)" where
  "build_position_matches [] pm = Inr pm"
| "build_position_matches ((key, v) # rest) pm =
     (if v \<noteq> [] then
        (case parse_position_key key of
           Inl e \<Rightarrow> Inl e
         | Inr None \<Rightarrow> build_position_matches rest pm
         | Inr (Some position_info) \<Rightarrow> build_position_matches rest (pm(key \<mapsto> position_info)))
      else build_position_matches rest pm)"

definition filled_entry :: "string \<Rightarrow> string \<Rightarrow> string" where
  "filled_entry field_key field_value =
     field_key @ '' -> '' @ py_take 50 field_value @
     (if py_len field_value > 50 then ''...'' else [])"

definition skipped_entry :: "string \<Rightarrow> string" where
  "skipped_entry field_key =
     field_key @ '': '' @ [CHR 0xE5, CHR 0xA1, CHR 0xAB, CHR 0xE5, CHR 0x85, CHR 0x85,
                           CHR 0xE5, CHR 0xA4, CHR 0xB1, CHR 0xE8, CHR 0xB4, CHR 0xA5]"

text \<open>
  The body of \<^verbatim>\<open>for field_key, field_value in mapped_data.items()\<close> at one cell
  of the table whose rows hold the cell objects \<open>g\<close>. The match reads the row as
  it is now; \<open>cell_txt\<close> was read once, before the loop over the fields. The call
  of the match is outside the inner \<^verbatim>\<open>try\<close>, so an exception of it leaves the
  scan; the fill catches its own exceptions and returns a flag.
\<close>

definition try_field ::
  "cell_id list list \<Rightarrow> (string \<rightharpoonup> position_info) \<Rightarrow> nat \<Rightarrow> nat \<Rightarrow> string \<Rightarrow>
   string \<times> string \<Rightarrow> scan_state \<Rightarrow> scan_result" where
  "try_field g position_matches row_idx cell_idx cell_txt field s =
     (let field_key = fst field; field_value = snd field in
      if field_value = [] then Inr s
      else
        case position_matches field_key of
          None \<Rightarrow> Inr s
        | Some position_info \<Rightarrow>
            (case is_position_match row_idx cell_idx cell_txt position_info
                    (row_view (cell_contents s) (g ! row_idx)) of
               Inl e \<Rightarrow> Inl (e, s)
             | Inr False \<Rightarrow> Inr s
             | Inr True \<Rightarrow>
                 (let (success, st') =
                        fill_cell_by_position (cell_contents s) (g ! row_idx) cell_idx
                          field_value position_info;
                      s' = s\<lparr>cell_contents := st'\<rparr>
                  in if success
                     then Inr (s'\<lparr>filled_fields := filled_fields s' @ [filled_entry field_key field_value]\<rparr>)
                     else Inr (s'\<lparr>skipped_fields := skipped_fields s' @ [skipped_entry field_key]\<rparr>))))"

definition scan_cell ::
  "cell_id list list \<Rightarrow> str_dict \<Rightarrow> (string \<rightharpoonup> position_info) \<Rightarrow> nat \<Rightarrow> nat \<Rightarrow>
   scan_state \<Rightarrow> scan_result" where
  "scan_cell g mapped_data position_matches row_idx cell_idx s =
     (let cell_txt = strip (cell_text (cell_contents s ! (g ! row_idx ! cell_idx)))
      in for_each mapped_data (try_field g position_matches row_idx cell_idx cell_txt) s)"

definition scan_row ::
  "cell_id list list \<Rightarrow> str_dict \<Rightarrow> (string \<rightharpoonup> position_info) \<Rightarrow> nat \<Rightarrow>
   scan_state \<Rightarrow> scan_result" where
  "scan_row g mapped_data position_matches row_idx s =
     for_each [0 ..< length (g ! row_idx)]
       (scan_cell g mapped_data position_matches row_idx) s"

definition scan_table ::
  "cell_id list list \<Rightarrow> str_dict \<Rightarrow> (string \<rightharpoonup> position_info) \<Rightarrow> scan_state \<Rightarrow> scan_result" where
  "scan_table g mapped_data position_matches s =
     for_each [0 ..< length g] (scan_row g mapped_data position_matches) s"

text \<open>\<^verbatim>\<open>_validate_unfilled_fields\<close>: the keys it logs as not filled.\<close>

definition filled_field_keys :: "string list \<Rightarrow> string list" where
  "filled_field_keys filled_lines = map (\<lambda>field. hd (py_split '' -> '' field)) filled_lines"

definition validate_unfilled_fields :: "str_dict \<Rightarrow> string list \<Rightarrow> string list" where
  "validate_unfilled_fields template_structure filled_lines =
     filter (\<lambda>key. key \<notin> set (filled_field_keys filled_lines)) (map fst template_structure)"

text \<open>
  \<^verbatim>\<open>stage3_position_aware_template_filling\<close>. The template file is missing
  (\<^verbatim>\<open>os.path.exists\<close> is false), or cannot be opened (\<^verbatim>\<open>Document\<close> raises), or
  holds a document. \<open>save_ok\<close> tells whether \<^verbatim>\<open>doc.save(output_path)\<close> returns
  without raising. Every exception is caught by the outer \<^verbatim>\<open>except\<close>, which
  returns false. The result holds the returned flag, the document in memory at
  the return (when one was opened), the document written to the output path
  (when the save went through) and the three lists that are logged after the
  save.
\<close>

datatype template_file = Missing | Unreadable | Readable document

record fill_report =
  success :: bool
  doc_in_memory :: "document option"
  saved :: "document option"
  filled :: "string list"
  skipped :: "string list"
  unfilled :: "string list"

definition failure :: "document option \<Rightarrow> fill_report" where
  "failure d = \<lparr>success = False, doc_in_memory = d, saved = None,
                 filled = [], skipped = [], unfilled = []\<rparr>"

definition stage3_position_aware_template_filling ::
  "template_file \<Rightarrow> bool \<Rightarrow> str_dict \<Rightarrow> str_dict \<Rightarrow> fill_report" where
  "stage3_position_aware_template_filling template save_ok mapped_data template_structure =
     (case template of
        Missing \<Rightarrow> failure None
      | Unreadable \<Rightarrow> failure None
      | Readable doc \<Rightarrow>
          (case doc of
             [] \<Rightarrow> failure (Some doc)
           | tbl # others \<Rightarrow>
               (case build_position_matches mapped_data Map.empty of
                  Inl e \<Rightarrow> failure (Some doc)
                | Inr position_matches \<Rightarrow>
                    (case scan_table (grid tbl) mapped_data position_matches
                            \<lparr>cell_contents = contents tbl, filled_fields = [], skipped_fields = []\<rparr> of
                       Inl (e, s) \<Rightarrow> failure (Some (tbl\<lparr>contents := cell_contents s\<rparr> # others))
                     | Inr s \<Rightarrow>
                         if save_ok then
                           \<lparr>success = True,
                            doc_in_memory = Some (tbl\<lparr>contents := cell_contents s\<rparr> # others),
                            saved = Some (tbl\<lparr>contents := cell_contents s\<rparr> # others),
                            filled = filled_fields s,
                            skipped = skipped_fields s,
                            unfilled = validate_unfilled_fields template_structure (filled_fields s)\<rparr>
                         else failure (Some (tbl\<lparr>contents := cell_contents s\<rparr> # others))))))"

section \<open>The fallback field mapper\<close>

text \<open>
  \<^verbatim>\<open>mapping_rules\<close> of \<^verbatim>\<open>_fallback_field_mapping\<close>: each semantic key with its
  possible names. The first name of every group is Chinese text, given here by
  its UTF-8 bytes.
\<close>

definition mapping_rules :: "(string \<times> string list) list" where
  "mapping_rules =
     [(''serial_number'',
        [[CHR 0xE7, CHR 0xBC, CHR 0x96, CHR 0xE5, CHR 0x8F, CHR 0xB7],
         ''number'',
         ''id'']),
      (''project_name'',
        [[CHR 0xE9, CHR 0xA1, CHR 0xB9, CHR 0xE7, CHR 0x9B, CHR 0xAE, CHR 0xE5, CHR 0x90, CHR 0x8D, CHR 0xE7, CHR 0xA7, CHR 0xB0],
         ''name'',
         ''title'']),
      (''review_date'',
        [[CHR 0xE5, CHR 0xA4, CHR 0x8D, CHR 0xE6, CHR 0xA0, CHR 0xB8, CHR 0xE6, CHR 0x97, CHR 0xA5, CHR 0xE6, CHR 0x9C, CHR 0x9F],
         ''date'',
         ''check_date'']),
      (''original_condition_review'',
        [[CHR 0xE5, CHR 0x8E, CHR 0x9F, CHR 0xE5, CHR 0xBD, CHR 0xA2, CHR 0xE5, CHR 0x88, CHR 0xB6],
         ''original_state'',
         ''original_form'']),
      (''damage_assessment_review'',
        [[CHR 0xE7, CHR 0x97, CHR 0x85, CHR 0xE5, CHR 0xAE, CHR 0xB3, CHR 0xE5, CHR 0x92, CHR 0x8C, CHR 0xE6, CHR 0xAE, CHR 0x8B, CHR 0xE6, CHR 0x8D, CHR 0x9F],
         ''damage'',
         ''deterioration'']),
      (''repair_plan_review'',
        [[CHR 0xE4, CHR 0xBF, CHR 0xAE, CHR 0xE7, CHR 0xBC, CHR 0xAE, CHR 0xE5, CHR 0x81, CHR 0x9A, CHR 0xE6, CHR 0xB3, CHR 0x95],
         ''repair_method'',
         ''repair_plan'']),
      (''project_lead'',
        [[CHR 0xE9, CHR 0xA1, CHR 0xB9, CHR 0xE7, CHR 0x9B, CHR 0xAE, CHR 0xE8, CHR 0xB4, CHR 0x9F, CHR 0xE8, CHR 0xB4, CHR 0xA3, CHR 0xE4, CHR 0xBA, CHR 0xBA],
         ''project_manager'',
         ''manager'',
         ''lead'']),
      (''reviewer'',
        [[CHR 0xE5, CHR 0xA4, CHR 0x8D, CHR 0xE6, CHR 0xA0, CHR 0xB8, CHR 0xE4, CHR 0xBA, CHR 0xBA, CHR 0xE5, CHR 0x91, CHR 0x98],
         ''reviewers'',
         ''checker''])]"

text \<open>\<^verbatim>\<open>mapped_data[template_key] = input_value\<close> on an insertion-ordered dictionary.\<close>

fun dict_set :: "str_dict \<Rightarrow> string \<Rightarrow> string \<Rightarrow> str_dict" where
  "dict_set [] k v = [(k, v)]"
| "dict_set ((k', v') # rest) k v =
     (if k' = k then (k, v) # rest else (k', v') # dict_set rest k v)"

text \<open>
  \<^verbatim>\<open>any(rule in template_key for rule_list in mapping_rules.values() for rule in rule_list)\<close>
\<close>

definition any_rule_in :: "string \<Rightarrow> bool" where
  "any_rule_in template_key =
     list_ex (\<lambda>rule_list. list_ex (\<lambda>rule. str_in rule template_key) rule_list)
       (map snd mapping_rules)"

text \<open>
  The loop \<^verbatim>\<open>for semantic_key, possible_names in mapping_rules.items()\<close>; its
  \<^verbatim>\<open>break\<close> leaves this loop only.
\<close>

fun semantic_match ::
  "(string \<times> string list) list \<Rightarrow> string \<Rightarrow> string \<Rightarrow> string \<Rightarrow> str_dict \<Rightarrow> str_dict" where
  "semantic_match [] input_key input_value template_key mapped = mapped"
| "semantic_match ((semantic_key, possible_names) # rules) input_key input_value template_key mapped =
     (if input_key \<in> set possible_names \<or> input_key = semantic_key then
        (if list_ex (\<lambda>name. str_in name template_key) possible_names
         then dict_set mapped template_key input_value
         else semantic_match rules input_key input_value template_key mapped)
      else semantic_match rules input_key input_value template_key mapped)"

text \<open>
  The loop \<^verbatim>\<open>for input_key, input_value in input_data.items()\<close> for one template
  key; the \<^verbatim>\<open>break\<close> of the direct match ends it.
\<close>

fun map_template_key :: "str_dict \<Rightarrow> string \<Rightarrow> str_dict \<Rightarrow> str_dict" where
  "map_template_key [] template_key mapped = mapped"
| "map_template_key ((input_key, input_value) # rest) template_key mapped =
     (if input_value \<noteq> [] then
        (if str_in input_key template_key \<or> any_rule_in template_key
         then dict_set mapped template_key input_value
         else map_template_key rest template_key
                (semantic_match mapping_rules input_key input_value template_key mapped))
      else map_template_key rest template_key mapped)"

definition fallback_field_mapping :: "str_dict \<Rightarrow> str_dict \<Rightarrow> str_dict" where
  "fallback_field_mapping template_structure input_data =
     foldl (\<lambda>mapped template_key. map_template_key input_data template_key mapped)
       [] (map fst template_structure)"

section \<open>The specification's wording\<close>

text \<open>
  The match predicate as the specification words it, for comparison with
  \<open>is_position_match\<close>.
\<close>

definition spec_matches :: "nat \<Rightarrow> nat \<Rightarrow> string \<Rightarrow> position_info \<Rightarrow> table_row \<Rightarrow> bool" where
  "spec_matches row_idx col_idx cell_txt d row_cells =
     (if fill_type d = ''next_cell'' then
        int row_idx = row d \<and> int col_idx = col d \<and> str_in (field_name d) cell_txt
      else if fill_type d = ''same_cell_with_context'' then
        int row_idx = row d \<and> str_in (field_name d) cell_txt \<and> col_idx > 0 \<and>
        (case context' d of
           None \<Rightarrow> False
         | Some ctx \<Rightarrow> str_in ctx (cell_text (row_cells ! (col_idx - 1))))
      else False)"

text \<open>
  The two rules of the fallback mapper as the specification words them, and the
  first input field with a non-empty value that satisfies one of them.
\<close>

definition direct_containment :: "string \<Rightarrow> string \<Rightarrow> bool" where
  "direct_containment input_key template_key =
     (str_in input_key template_key \<or>
      (\<exists>g \<in> set mapping_rules. \<exists>syn \<in> set (snd g). str_in syn template_key))"

definition semantic_rule :: "string \<Rightarrow> string \<Rightarrow> bool" where
  "semantic_rule input_key template_key =
     (\<exists>g \<in> set mapping_rules.
        (input_key = fst g \<or> input_key \<in> set (snd g)) \<and>
        (\<exists>syn \<in> set (snd g). str_in syn template_key))"

definition first_satisfying :: "string \<Rightarrow> str_dict \<Rightarrow> (string \<times> string) option" where
  "first_satisfying template_key input_data =
     find (\<lambda>field. snd field \<noteq> [] \<and>
                   (direct_containment (fst field) template_key \<or>
                    semantic_rule (fst field) template_key))
       input_data"



section \<open>Auxiliary notions for the scan\<close>







section \<open>Decoding: properties\<close>

lemma py_int_raises_only_ValueError: "py_int s = Inl e \<Longrightarrow> e = ValueError"
  by (auto simp: py_int_def Let_def split: if_splits)

lemma parse_try_raises_only_ValueError:
  "parse_position_key_try k = Inl e \<Longrightarrow> e = ValueError"
  by (auto simp: parse_position_key_try_def Let_def
           split: if_splits sum.splits dest: py_int_raises_only_ValueError)

text \<open>
  Claim C9. For every input string the decoder returns, and what it returns is
  either no descriptor or a descriptor: every exception its body can raise is a
  \<^verbatim>\<open>ValueError\<close>, which the \<^verbatim>\<open>except\<close> clause turns into \<^verbatim>\<open>None\<close>. The
  decoder is a function of the key alone, so it has no effect on any state.
\<close>

theorem parse_position_key_total:
  "parse_position_key k = Inr None \<or> (\<exists>d. parse_position_key k = Inr (Some d))"
proof (cases "parse_position_key_try k")
  case (Inl e)
  then have "e = ValueError" by (rule parse_try_raises_only_ValueError)
  with Inl show ?thesis by (simp add: parse_position_key_def)
next
  case (Inr r)
  then show ?thesis by (cases r) (simp_all add: parse_position_key_def)
qed

lemma parse_non_numeric_row: "parse_position_key ''row_abc_col_2_x'' = Inr None"
  by code_simp

theorem parse_position_key_total_witness:
  "parse_position_key ''row_abc_col_2_x'' = Inr None \<and>
   (parse_position_key ''row_abc_col_2_x'' = Inr None \<or>
    (\<exists>d. parse_position_key ''row_abc_col_2_x'' = Inr (Some d)))"
  using parse_position_key_total [of "''row_abc_col_2_x''"] parse_non_numeric_row by simp

lemma split_at_segment:
  "CHR ''_'' \<notin> set seg \<Longrightarrow>
   split_at ''_'' cur (seg @ CHR ''_'' # rest) = (cur @ seg) # split_at ''_'' [] rest"
  by (induction seg arbitrary: cur) simp_all

lemma py_split_segment:
  "CHR ''_'' \<notin> set seg \<Longrightarrow> py_split ''_'' (seg @ ''_'' @ rest) = seg # py_split ''_'' rest"
  using split_at_segment [of seg "[]" rest] by (simp add: py_split_def)

lemma parse_try_tail:
  assumes "py_split ''_'' k1 = a # ps" and "py_split ''_'' k2 = b # ps"
  shows "parse_position_key_try k1 = parse_position_key_try k2"
  using assms by (auto simp: parse_position_key_try_def Let_def split: sum.splits)

text \<open>
  Claim C3, as the code has it. The decoder never looks at the first segment: a
  key decodes exactly as the key whose first segment is replaced by
  \<^verbatim>\<open>row\<close>. So a first segment other than \<^verbatim>\<open>row\<close> does not make a key
  invalid.
\<close>

theorem parse_position_key_ignores_first_segment:
  assumes "CHR ''_'' \<notin> set seg"
  shows "parse_position_key (seg @ ''_'' @ rest) = parse_position_key (''row_'' @ rest)"
proof -
  have 1: "py_split ''_'' (seg @ ''_'' @ rest) = seg # py_split ''_'' rest"
    using assms by (rule py_split_segment)
  have 2: "py_split ''_'' (''row_'' @ rest) = ''row'' # py_split ''_'' rest"
    using py_split_segment [of "''row''" rest] by simp
  show ?thesis
    using parse_try_tail [OF 1 2] by (simp add: parse_position_key_def)
qed

theorem parse_position_key_ignores_first_segment_witness:
  "CHR ''_'' \<notin> set ''foo'' \<and>
   parse_position_key ''foo_1_col_2_x'' = parse_position_key ''row_1_col_2_x''"
  using parse_position_key_ignores_first_segment [of "''foo''" "''1_col_2_x''"] by simp

text \<open>
  The key \<^verbatim>\<open>foo_1_col_2_x\<close>, whose first segment is not \<^verbatim>\<open>row\<close>, decodes to
  a descriptor.
\<close>

theorem parse_first_segment_counterexample:
  "hd (py_split ''_'' ''foo_1_col_2_x'') \<noteq> ''row'' \<and>
   parse_position_key ''foo_1_col_2_x'' =
     Inr (Some \<lparr>row = 0, col = 1, context' = None, field_name = ''x'', fill_type = ''next_cell''\<rparr>)"
  by code_simp

lemma parse_Some_cases:
  assumes "parse_position_key k = Inr (Some d)"
  shows "4 \<le> length (py_split ''_'' k) \<and>
         py_int (py_split ''_'' k ! 1) = Inr (row d + 1) \<and>
         field_name d = py_join ''_'' (drop 4 (py_split ''_'' k)) \<and>
         ((py_split ''_'' k ! 2 = ''col'' \<and> fill_type d = ''next_cell'' \<and> context' d = None \<and>
           py_int (py_split ''_'' k ! 3) = Inr (col d + 1)) \<or>
          (py_split ''_'' k ! 2 = ''left'' \<and> fill_type d = ''same_cell_with_context'' \<and>
           context' d = Some (py_split ''_'' k ! 3) \<and> col d = - 1))"
  using assms
  by (auto simp: parse_position_key_def parse_position_key_try_def Let_def
           split: if_splits sum.splits)

lemma negative_row_matches_nothing:
  "row d < 0 \<Longrightarrow> is_position_match row_idx cell_idx cell_txt d row_cells \<noteq> Inr True"
  by (auto simp: is_position_match_def split: option.splits)

text \<open>
  Claim C4, as the code has it. A key of at least four segments whose second
  segment reads as an integer \<open>n\<close>, positive or not, decodes whenever the rest is
  well formed, and the row of its descriptor is \<open>n - 1\<close>: nothing rejects
  \<open>n \<le> 0\<close>, so the row can be negative. A descriptor with a negative row
  matches no cell.
\<close>

theorem parse_row_is_segment_minus_one:
  assumes "4 \<le> length (py_split ''_'' k)" and "py_int (py_split ''_'' k ! 1) = Inr n"
  shows "(py_split ''_'' k ! 2 = ''col'' \<longrightarrow> py_int (py_split ''_'' k ! 3) = Inr m \<longrightarrow>
            parse_position_key k =
              Inr (Some \<lparr>row = n - 1, col = m - 1, context' = None,
                         field_name = py_join ''_'' (drop 4 (py_split ''_'' k)),
                         fill_type = ''next_cell''\<rparr>)) \<and>
         (py_split ''_'' k ! 2 = ''left'' \<longrightarrow>
            parse_position_key k =
              Inr (Some \<lparr>row = n - 1, col = - 1, context' = Some (py_split ''_'' k ! 3),
                         field_name = py_join ''_'' (drop 4 (py_split ''_'' k)),
                         fill_type = ''same_cell_with_context''\<rparr>)) \<and>
         (\<forall>d. parse_position_key k = Inr (Some d) \<longrightarrow>
            row d = n - 1 \<and>
            (row d < 0 \<longrightarrow> is_position_match row_idx cell_idx cell_txt d row_cells \<noteq> Inr True))"
proof -
  have 1: "py_split ''_'' k ! 2 = ''col'' \<longrightarrow> py_int (py_split ''_'' k ! 3) = Inr m \<longrightarrow>
            parse_position_key k =
              Inr (Some \<lparr>row = n - 1, col = m - 1, context' = None,
                         field_name = py_join ''_'' (drop 4 (py_split ''_'' k)),
                         fill_type = ''next_cell''\<rparr>)"
    using assms by (simp add: parse_position_key_def parse_position_key_try_def Let_def)
  have 2: "py_split ''_'' k ! 2 = ''left'' \<longrightarrow>
            parse_position_key k =
              Inr (Some \<lparr>row = n - 1, col = - 1, context' = Some (py_split ''_'' k ! 3),
                         field_name = py_join ''_'' (drop 4 (py_split ''_'' k)),
                         fill_type = ''same_cell_with_context''\<rparr>)"
    using assms by (simp add: parse_position_key_def parse_position_key_try_def Let_def)
  have 3: "row d = n - 1 \<and>
           (row d < 0 \<longrightarrow> is_position_match row_idx cell_idx cell_txt d row_cells \<noteq> Inr True)"
    if "parse_position_key k = Inr (Some d)" for d
    using parse_Some_cases [OF that] assms(2) negative_row_matches_nothing [of d] by auto
  show ?thesis using 1 2 3 by blast
qed

lemma minus_five_segments:
  "py_split ''_'' ''row_-5_left_c_x'' = [''row'', ''-5'', ''left'', ''c'', ''x'']"
  by code_simp

lemma minus_five_int: "py_int ''-5'' = Inr (- 5)"
  by code_simp

theorem parse_row_is_segment_minus_one_witness:
  "4 \<le> length (py_split ''_'' ''row_-5_left_c_x'') \<and>
   py_int (py_split ''_'' ''row_-5_left_c_x'' ! 1) = Inr (- 5) \<and>
   parse_position_key ''row_-5_left_c_x'' =
     Inr (Some \<lparr>row = - 6, col = - 1, context' = Some ''c'', field_name = ''x'',
                fill_type = ''same_cell_with_context''\<rparr>)"
  using parse_row_is_segment_minus_one [of "''row_-5_left_c_x''" "- 5"]
    minus_five_segments minus_five_int
  by simp

text \<open>
  The key \<^verbatim>\<open>row_0_col_2_x\<close>: its second segment reads as the integer 0, and it
  decodes to a descriptor whose row is \<open>- 1\<close>.
\<close>

theorem parse_negative_row_counterexample:
  "py_int (py_split ''_'' ''row_0_col_2_x'' ! 1) = Inr 0 \<and>
   parse_position_key ''row_0_col_2_x'' =
     Inr (Some \<lparr>row = - 1, col = 1, context' = None, field_name = ''x'', fill_type = ''next_cell''\<rparr>)"
  by code_simp

section \<open>Matching and filling: properties\<close>

lemma str_in_empty: "str_in [] t"
  by (simp add: str_in_def)

text \<open>
  Claim C2. For a cell of the row and a descriptor that carries a context
  whenever its fill type is \<^verbatim>\<open>same_cell_with_context\<close> (every decoded
  descriptor does), the match predicate returns, and its value is the one the
  specification words: row, column and label for \<^verbatim>\<open>next_cell\<close>; row, label,
  a positive column and the context in the left neighbour for
  \<^verbatim>\<open>same_cell_with_context\<close>; false for any other fill type.
\<close>

theorem is_position_match_spec:
  assumes "cell_idx < length row_cells"
    and "fill_type d = ''same_cell_with_context'' \<longrightarrow> context' d \<noteq> None"
  shows "is_position_match row_idx cell_idx cell_txt d row_cells =
           Inr (spec_matches row_idx cell_idx cell_txt d row_cells)"
  using assms by (auto simp: is_position_match_def spec_matches_def split: option.splits)

lemma context_row_matches:
  "is_position_match 3 1 ''lab''
     \<lparr>row = 3, col = - 1, context' = Some ''ctx'', field_name = ''lab'',
      fill_type = ''same_cell_with_context''\<rparr> [[''ctx''], [''lab'']] = Inr True"
  by code_simp

theorem is_position_match_spec_witness:
  "(1::nat) < length [[''ctx''], [''lab'']] \<and>
   is_position_match 3 1 ''lab''
     \<lparr>row = 3, col = - 1, context' = Some ''ctx'', field_name = ''lab'',
      fill_type = ''same_cell_with_context''\<rparr> [[''ctx''], [''lab'']] = Inr True \<and>
   spec_matches 3 1 ''lab''
     \<lparr>row = 3, col = - 1, context' = Some ''ctx'', field_name = ''lab'',
      fill_type = ''same_cell_with_context''\<rparr> [[''ctx''], [''lab'']]"
  using is_position_match_spec [of 1 "[[''ctx''], [''lab'']]"
      "\<lparr>row = 3, col = - 1, context' = Some ''ctx'', field_name = ''lab'',
        fill_type = ''same_cell_with_context''\<rparr>" 3 "''lab''"] context_row_matches
  by simp












text \<open>
  Claim C10. A key of exactly four segments that decodes gives a descriptor with
  the empty field name; the empty string is contained in every cell text; so a
  \<^verbatim>\<open>next_cell\<close> descriptor of this kind matches on the coordinates alone,
  and a \<^verbatim>\<open>same_cell_with_context\<close> descriptor on the row and the context of
  the left neighbour alone.
\<close>

theorem four_segment_key_empty_field_name:
  assumes "length (py_split ''_'' k) = 4" and "parse_position_key k = Inr (Some d)"
  shows "field_name d = [] \<and> str_in (field_name d) cell_txt \<and>
         (fill_type d = ''next_cell'' \<longrightarrow>
            is_position_match row_idx cell_idx cell_txt d row_cells =
              Inr (int row_idx = row d \<and> int cell_idx = col d)) \<and>
         (fill_type d = ''same_cell_with_context'' \<longrightarrow> cell_idx \<le> length row_cells \<longrightarrow>
            (\<exists>ctx. context' d = Some ctx \<and>
               is_position_match row_idx cell_idx cell_txt d row_cells =
                 Inr (int row_idx = row d \<and> cell_idx > 0 \<and>
                      str_in ctx (cell_text (row_cells ! (cell_idx - 1))))))"
proof -
  have fn: "field_name d = []"
    using parse_Some_cases [OF assms(2)] assms(1) by simp
  have ctx: "fill_type d = ''same_cell_with_context'' \<Longrightarrow> \<exists>ctx. context' d = Some ctx"
    using parse_Some_cases [OF assms(2)] by auto
  show ?thesis
    using fn ctx by (auto simp: is_position_match_def str_in_empty)
qed

lemma four_segments_length: "length (py_split ''_'' ''row_2_col_1'') = 4"
  by code_simp

lemma four_segments_parse:
  "parse_position_key ''row_2_col_1'' =
     Inr (Some \<lparr>row = 1, col = 0, context' = None, field_name = [], fill_type = ''next_cell''\<rparr>)"
  by code_simp

theorem four_segment_key_empty_field_name_witness:
  "length (py_split ''_'' ''row_2_col_1'') = 4 \<and>
   parse_position_key ''row_2_col_1'' =
     Inr (Some \<lparr>row = 1, col = 0, context' = None, field_name = [], fill_type = ''next_cell''\<rparr>) \<and>
   is_position_match 1 0 ''anything''
     \<lparr>row = 1, col = 0, context' = None, field_name = [], fill_type = ''next_cell''\<rparr>
     [[''anything''], ['''']] = Inr True"
  using four_segment_key_empty_field_name
          [OF four_segments_length four_segments_parse, of "''anything''" 1 0 "[[''anything''], ['''']]"]
    four_segments_length four_segments_parse
  by simp

section \<open>The fill pass: properties\<close>

text \<open>
  Claim C7. On a document without tables the fill pass returns false, the
  document in memory is the one that was opened, nothing is written to the
  output path, and no field is recorded as filled or skipped.
\<close>

theorem no_table_is_failure:
  "stage3_position_aware_template_filling (Readable []) save_ok mapped_data template_structure =
     \<lparr>success = False, doc_in_memory = Some [], saved = None,
      filled = [], skipped = [], unfilled = []\<rparr>"
  by (simp add: stage3_position_aware_template_filling_def failure_def)

theorem no_table_is_failure_witness:
  "success (stage3_position_aware_template_filling (Readable []) True
              [(''row_1_col_1_a'', ''V'')] [(''row_1_col_1_a'', ''label'')]) = False \<and>
   saved (stage3_position_aware_template_filling (Readable []) True
              [(''row_1_col_1_a'', ''V'')] [(''row_1_col_1_a'', ''label'')]) = None"
  using no_table_is_failure [of True "[(''row_1_col_1_a'', ''V'')]" "[(''row_1_col_1_a'', ''label'')]"]
  by simp












































section \<open>The fallback field mapper: properties\<close>

lemma dict_set_map_of: "map_of (dict_set m k v) = (map_of m)(k \<mapsto> v)"
  by (induction m) (auto simp: fun_eq_iff)

lemma semantic_match_noop:
  assumes "\<forall>g \<in> set rules. \<not> list_ex (\<lambda>name. str_in name template_key) (snd g)"
  shows "semantic_match rules input_key input_value template_key mapped = mapped"
  using assms by (induction rules) auto

lemma any_rule_in_iff:
  "any_rule_in template_key \<longleftrightarrow>
     (\<exists>g \<in> set mapping_rules. \<exists>syn \<in> set (snd g). str_in syn template_key)"
  by (auto simp: any_rule_in_def list_ex_iff)

text \<open>
  The semantic branch is only reached when no name of any group occurs in the
  template key, and then it records nothing.
\<close>

lemma semantic_match_mapping_rules:
  "\<not> any_rule_in template_key \<Longrightarrow>
   semantic_match mapping_rules input_key input_value template_key mapped = mapped"
  by (rule semantic_match_noop) (auto simp: any_rule_in_iff list_ex_iff)

lemma semantic_rule_implies_any: "semantic_rule input_key template_key \<Longrightarrow> any_rule_in template_key"
  by (auto simp: semantic_rule_def any_rule_in_iff)

lemma satisfies_iff:
  "(direct_containment input_key template_key \<or> semantic_rule input_key template_key) \<longleftrightarrow>
   (str_in input_key template_key \<or> any_rule_in template_key)"
  using semantic_rule_implies_any by (auto simp: direct_containment_def any_rule_in_iff)

lemma map_template_key_map_of:
  "map_of (map_template_key input_data template_key mapped) =
     (case first_satisfying template_key input_data of
        None \<Rightarrow> map_of mapped
      | Some field \<Rightarrow> (map_of mapped)(template_key \<mapsto> snd field))"
proof (induction input_data arbitrary: mapped)
  case Nil
  then show ?case by (simp add: first_satisfying_def)
next
  case (Cons field rest)
  obtain ik iv where f: "field = (ik, iv)" by (cases field)
  show ?case
  proof (cases "iv \<noteq> [] \<and> (str_in ik template_key \<or> any_rule_in template_key)")
    case True
    then show ?thesis
      using f by (simp add: first_satisfying_def satisfies_iff dict_set_map_of)
  next
    case False
    then have "map_template_key (field # rest) template_key mapped =
               map_template_key rest template_key mapped"
      using f by (auto simp: semantic_match_mapping_rules)
    moreover have "first_satisfying template_key (field # rest) = first_satisfying template_key rest"
      using False f by (auto simp: first_satisfying_def satisfies_iff)
    ultimately show ?thesis using Cons.IH by simp
  qed
qed

lemma fold_template_keys:
  "map_of (foldl (\<lambda>mapped template_key. map_template_key input_data template_key mapped) m ks) tk =
     (if tk \<in> set ks
      then (case first_satisfying tk input_data of
              None \<Rightarrow> map_of m tk
            | Some field \<Rightarrow> Some (snd field))
      else map_of m tk)"
proof (induction ks arbitrary: m)
  case Nil
  then show ?case by simp
next
  case (Cons k ks)
  show ?case
    by (simp add: Cons.IH map_template_key_map_of split: option.splits)
qed

lemma fallback_map_of:
  assumes "template_key \<in> fst ` set template_structure"
  shows "map_of (fallback_field_mapping template_structure input_data) template_key =
           map_option snd (first_satisfying template_key input_data)"
  using assms
  by (simp add: fallback_field_mapping_def fold_template_keys split: option.splits)

lemma first_satisfying_append:
  "first_satisfying template_key input_data = Some field \<Longrightarrow>
   first_satisfying template_key (input_data @ later) = Some field"
  unfolding first_satisfying_def by (induction input_data) (auto split: if_splits)

text \<open>
  Claim C6. For every template key, the value the fallback mapper records is the
  value of the first input field, in the order of the input, that has a
  non-empty value and satisfies the direct-containment rule or the semantic
  rule; the key is absent from the mapping when no input field satisfies a
  rule; and once a value is recorded for the key, input fields that come later
  do not change it.
\<close>

theorem fallback_first_satisfying_field_wins:
  assumes "template_key \<in> fst ` set template_structure"
  shows "map_of (fallback_field_mapping template_structure input_data) template_key =
           map_option snd (first_satisfying template_key input_data) \<and>
         (map_of (fallback_field_mapping template_structure input_data) template_key \<noteq> None \<longrightarrow>
            map_of (fallback_field_mapping template_structure (input_data @ later)) template_key =
            map_of (fallback_field_mapping template_structure input_data) template_key)"
proof -
  have 1: "map_of (fallback_field_mapping template_structure i) template_key =
             map_option snd (first_satisfying template_key i)" for i
    using assms by (rule fallback_map_of)
  show ?thesis
    using first_satisfying_append [of template_key input_data _ later]
    by (auto simp: 1)
qed

lemma first_satisfying_title:
  "first_satisfying ''row_1_col_1_title''
     [(''empty'', []), (''abc'', ''first''), (''name'', ''second'')] = Some (''abc'', ''first'')"
  by code_simp

theorem fallback_first_satisfying_field_wins_witness:
  "''row_1_col_1_title'' \<in> fst ` set [(''row_1_col_1_title'', ''label'')] \<and>
   first_satisfying ''row_1_col_1_title''
     [(''empty'', []), (''abc'', ''first''), (''name'', ''second'')] = Some (''abc'', ''first'') \<and>
   map_of (fallback_field_mapping [(''row_1_col_1_title'', ''label'')]
             [(''empty'', []), (''abc'', ''first''), (''name'', ''second'')])
     ''row_1_col_1_title'' = Some ''first''"
  using fallback_first_satisfying_field_wins
          [of "''row_1_col_1_title''" "[(''row_1_col_1_title'', ''label'')]"
              "[(''empty'', []), (''abc'', ''first''), (''name'', ''second'')]"]
    first_satisfying_title
  by simp

end
